theory Spec2Isabelle
  imports Complex_Main "HOL-Library.Sublist" "HOL-Library.AList" "HOL-Library.Multiset"
begin

section \<open>Strings, numbers, exceptions and library functions\<close>

text \<open>
  A Python \<open>str\<close> is a sequence of Unicode code points, so a slice such as
  \<open>title.lower()[:100]\<close> counts code points. The model keeps that: a string is a list
  of code points, and \<open>py\<close> embeds an ASCII literal.
\<close>

type_synonym pystr = "nat list"

definition py :: "string \<Rightarrow> pystr" where
  "py s = map of_char s"

text \<open>
  Python distinguishes the exceptions that \<open>except Exception\<close> catches from the ones that
  pass through it (\<open>KeyboardInterrupt\<close>, \<open>SystemExit\<close>).
\<close>

datatype py_exception = Exception pystr | KeyboardInterrupt | SystemExit

fun is_Exception :: "py_exception \<Rightarrow> bool" where
  "is_Exception (Exception msg) = True"
| "is_Exception KeyboardInterrupt = False"
| "is_Exception SystemExit = False"

text \<open>
  The functions of the Python runtime and of \<open>hashlib\<close> that the services call. They are
  not code of the repository, so every definition that calls one takes them as the
  parameter \<open>L\<close>: \<open>md5_hexdigest raw\<close> is \<open>hashlib.md5(raw.encode()).hexdigest()\<close>,
  \<open>str_lower\<close> and \<open>str_strip\<close> are \<open>str.lower\<close> and \<open>str.strip\<close>, and the three
  formatters are the format specifications \<open>:.1f\<close>, \<open>:.2f\<close> and \<open>:,\<close>.
\<close>

record pylib =
  md5_hexdigest :: "pystr \<Rightarrow> pystr"
  str_lower :: "pystr \<Rightarrow> pystr"
  str_strip :: "pystr \<Rightarrow> pystr"
  format_1f :: "rat \<Rightarrow> pystr"
  format_2f :: "rat \<Rightarrow> pystr"
  format_thousands :: "int \<Rightarrow> pystr"

text \<open>
  Scores are Python floats. The model computes them as exact rationals: every operation
  the fetchers apply to a score (comparison, \<open>min\<close>, \<open>max\<close>, rounding to one decimal) is
  monotone, and the rank-decay scores are multiples of one half, which floats hold
  exactly. \<open>round(x, 1)\<close> rounds to the nearest tenth, a tie going to the even digit.
\<close>

definition round_half_even :: "rat \<Rightarrow> int" where
  "round_half_even x =
     (let f = \<lfloor>x\<rfloor>; d = x - of_int f
      in if d < 1 / 2 then f else if 1 / 2 < d then f + 1 else if even f then f else f + 1)"

definition py_round1 :: "rat \<Rightarrow> rat" where
  "py_round1 x = of_int (round_half_even (x * 10)) / 10"

section \<open>The record every fetcher produces\<close>

text \<open>
  \<open>trend_data\<close> is the dict a fetcher appends for each item: the fields of the
  \<open>Trend\<close> model it fills in, and the \<open>source_id\<close> that the management command pops
  off again (\<open>None\<close> when the key is missing).
\<close>

record trend_data =
  title :: pystr
  category :: pystr
  platform :: pystr
  description :: pystr
  score :: rat
  velocity :: pystr
  likes :: int
  shares :: int
  comments :: int
  source :: pystr
  external_url :: pystr
  source_id :: "pystr option"

section \<open>Normalization and scoring (\<open>services/live_data_service.py\<close>)\<close>

definition make_source_id :: "pylib \<Rightarrow> pystr \<Rightarrow> pystr \<Rightarrow> pystr" where
  "make_source_id L src identifier = md5_hexdigest L (src @ py '':'' @ identifier)"

definition score_from_value :: "rat \<Rightarrow> rat \<Rightarrow> rat" where
  "score_from_value v max_value =
     (if max_value \<le> 0 then 50 else py_round1 (min (v / max_value * 100) 100))"

definition classify_velocity :: "rat \<Rightarrow> pystr" where
  "classify_velocity s =
     (if s \<ge> 85 then py ''exploding''
      else if s \<ge> 60 then py ''rising''
      else if s \<ge> 30 then py ''steady''
      else py ''declining'')"

text \<open>
  Every fetcher wraps its work in \<open>try ... except Exception\<close>: what the provider call
  raised is logged and the list built so far (empty, since the call comes first) is
  returned; an exception outside \<open>Exception\<close> passes through.
\<close>

definition on_Exception ::
  "py_exception \<Rightarrow> (py_exception + trend_data list) \<Rightarrow> py_exception + trend_data list" where
  "on_Exception e handler = (if is_Exception e then handler else Inl e)"

section \<open>Google Trends\<close>

definition google_candidate :: "pylib \<Rightarrow> nat \<Rightarrow> pystr \<Rightarrow> trend_data" where
  "google_candidate L idx ttl =
     (let s = max (py_round1 (95 - of_nat idx * 3.5)) 20
      in \<lparr> title = ttl,
           category = py ''other'',
           platform = py ''twitter'',
           description = [34] @ ttl @ [34] @ py '' is currently trending on Google Search. This topic is generating significant search interest and social media discussion across platforms.'',
           score = s,
           velocity = classify_velocity s,
           likes = 0,
           shares = 0,
           comments = 0,
           source = py ''google_trends'',
           external_url = py ''https://trends.google.com/trends/explore?q=''
                            @ map (\<lambda>c. if c = 32 then 43 else c) ttl,
           source_id = Some (make_source_id L (py ''google_trends'') (str_lower L ttl)) \<rparr>)"

text \<open>The loop over \<open>trending_df.head(count).iterrows()\<close>; a blank title is skipped.\<close>

fun google_rows :: "pylib \<Rightarrow> (nat \<times> pystr) list \<Rightarrow> trend_data list" where
  "google_rows L [] = []"
| "google_rows L ((idx, cell) # rows) =
     (let ttl = str_strip L cell
      in if ttl = [] then google_rows L rows
         else google_candidate L idx ttl # google_rows L rows)"

text \<open>
  \<open>trending\<close> is what \<open>pytrends.trending_searches(pn=geo)\<close> did: it raised (the import
  included), or it returned a frame whose first column, rendered by \<open>str\<close>, is the list;
  the frame has the default index, so a row's label is its position.
\<close>

definition GoogleTrendsFetcher_fetch ::
  "pylib \<Rightarrow> (py_exception + pystr list) \<Rightarrow> nat \<Rightarrow> py_exception + trend_data list" where
  "GoogleTrendsFetcher_fetch L trending count' =
     (case trending of
        Inl e \<Rightarrow> on_Exception e (Inr [])
      | Inr cells \<Rightarrow> Inr (google_rows L (enumerate 0 (take count' cells))))"

section \<open>Stock market\<close>

definition WATCHLIST :: "pystr list" where
  "WATCHLIST = map py
     [''AAPL'', ''MSFT'', ''GOOGL'', ''AMZN'', ''NVDA'', ''META'', ''TSLA'',
      ''BRK-B'', ''JPM'', ''V'', ''JNJ'', ''WMT'', ''PG'', ''MA'', ''UNH'',
      ''HD'', ''DIS'', ''NFLX'', ''PYPL'', ''AMD'', ''INTC'', ''CRM'', ''ORCL'', ''CSCO'']"

text \<open>
  \<open>fast_info\<close> of a ticker: an attribute is \<open>None\<close> when it is missing or \<open>None\<close>, and
  \<open>getattr(info, a, 0) or 0\<close> reads it.
\<close>

record fast_info =
  last_price :: "rat option"
  previous_close :: "rat option"
  info_market_cap :: "rat option"

definition or_zero :: "rat option \<Rightarrow> rat" where
  "or_zero v = (case v of None \<Rightarrow> 0 | Some x \<Rightarrow> x)"

record mover =
  symbol :: pystr
  price :: rat
  change_pct :: rat
  market_cap :: rat

definition mover_of :: "pystr \<Rightarrow> fast_info \<Rightarrow> mover" where
  "mover_of smb info =
     (let p = or_zero (last_price info);
          prev_close = or_zero (previous_close info);
          change = (if prev_close > 0 then ((p - prev_close) / prev_close) * 100 else 0)
      in \<lparr> symbol = smb, price = p, change_pct = change,
           market_cap = or_zero (info_market_cap info) \<rparr>)"

text \<open>
  The loop over the watch-list. \<open>tickers smb\<close> is \<open>None\<close> when \<open>tickers.tickers.get\<close>
  finds nothing; otherwise it is what reading the ticker's \<open>fast_info\<close> did. The inner
  \<open>except Exception: continue\<close> skips a symbol whose read raised.
\<close>

fun collect_movers ::
  "(pystr \<Rightarrow> (py_exception + fast_info) option) \<Rightarrow> pystr list \<Rightarrow> py_exception + mover list" where
  "collect_movers tickers [] = Inr []"
| "collect_movers tickers (smb # rest) =
     (case tickers smb of
        None \<Rightarrow> collect_movers tickers rest
      | Some (Inl e) \<Rightarrow> if is_Exception e then collect_movers tickers rest else Inl e
      | Some (Inr info) \<Rightarrow>
          (case collect_movers tickers rest of
             Inl e \<Rightarrow> Inl e
           | Inr ms \<Rightarrow> Inr (mover_of smb info # ms)))"

text \<open>
  \<open>movers.sort(key=lambda x: abs(x['change_pct']), reverse=True)\<close>: Python's sort is
  stable, also in reverse, which is a stable sort on the negated key.
\<close>

definition sort_movers :: "mover list \<Rightarrow> mover list" where
  "sort_movers ms = sort_key (\<lambda>m. - \<bar>change_pct m\<bar>) ms"

definition stock_velocity :: "rat \<Rightarrow> pystr" where
  "stock_velocity change =
     (if change > 3 then py ''exploding''
      else if change > 0 then py ''rising''
      else if change > - 2 then py ''steady''
      else py ''declining'')"

definition stock_candidate :: "pylib \<Rightarrow> mover \<Rightarrow> trend_data" where
  "stock_candidate L m =
     (let change = change_pct m;
          direction = (if change > 0 then [128200] @ py '' up'' else [128201] @ py '' down'');
          s = min (\<bar>change\<bar> * 15 + 40) 99
      in \<lparr> title = symbol m @ py '' '' @ direction @ py '' '' @ format_1f L \<bar>change\<bar>
                     @ py ''% '' @ [8212] @ py '' $'' @ format_2f L (price m),
           category = py ''business'',
           platform = py ''twitter'',
           description = symbol m @ py '' stock is '' @ direction @ py '' ''
                     @ format_1f L \<bar>change\<bar> @ py ''% today, trading at $''
                     @ format_2f L (price m) @ py ''. ''
                     @ py ''Market cap: $'' @ format_1f L (market_cap m / 1000000000) @ py ''B. ''
                     @ py ''This move is generating discussion across financial communities.'',
           score = py_round1 s,
           velocity = stock_velocity change,
           likes = 0,
           shares = 0,
           comments = 0,
           source = py ''stocks'',
           external_url = py ''https://finance.yahoo.com/quote/'' @ symbol m @ py ''/'',
           source_id = Some (make_source_id L (py ''stocks'') (symbol m)) \<rparr>)"

text \<open>
  \<open>market\<close> is what \<open>yf.Tickers(...)\<close> did (the import included): it raised, or it gave
  the tickers.
\<close>

definition StockTrendsFetcher_fetch ::
  "pylib \<Rightarrow> (py_exception + (pystr \<Rightarrow> (py_exception + fast_info) option)) \<Rightarrow> nat
     \<Rightarrow> py_exception + trend_data list" where
  "StockTrendsFetcher_fetch L market count' =
     (case market of
        Inl e \<Rightarrow> on_Exception e (Inr [])
      | Inr tickers \<Rightarrow>
          (case collect_movers tickers WATCHLIST of
             Inl e \<Rightarrow> Inl e
           | Inr movers \<Rightarrow> Inr (map (stock_candidate L) (take count' (sort_movers movers)))))"

section \<open>News headlines\<close>

text \<open>
  An article of the GNews response, as the \<open>.get\<close> calls read it: \<open>description\<close> is
  \<open>None\<close> when the key is missing or null, \<open>source_name\<close> is \<open>None\<close> when the source
  carries no name.
\<close>

record article =
  article_title :: pystr
  article_description :: "pystr option"
  article_source_name :: "pystr option"
  article_url :: pystr

definition news_candidate :: "pylib \<Rightarrow> nat \<Rightarrow> article \<Rightarrow> trend_data" where
  "news_candidate L idx a =
     (let ttl = str_strip L (article_title a);
          desc = (case article_description a of None \<Rightarrow> [] | Some d \<Rightarrow> d);
          source_name = (case article_source_name a of None \<Rightarrow> py ''News'' | Some n \<Rightarrow> n);
          s = max (py_round1 (90 - of_nat idx * 3)) 25
      in \<lparr> title = ttl,
           category = py ''other'',
           platform = py ''twitter'',
           description = (if desc \<noteq> [] then py ''['' @ source_name @ py ''] '' @ desc
                          else py ''Breaking news from '' @ source_name @ py ''.''),
           score = s,
           velocity = classify_velocity s,
           likes = 0,
           shares = 0,
           comments = 0,
           source = py ''news'',
           external_url = article_url a,
           source_id = Some (make_source_id L (py ''news'') (take 100 (str_lower L ttl))) \<rparr>)"

text \<open>An entry of a parsed syndication feed (\<open>feedparser\<close>).\<close>

record rss_entry =
  entry_title :: pystr
  entry_link :: pystr
  entry_summary :: pystr

definition news_rss_candidate :: "pylib \<Rightarrow> nat \<Rightarrow> rss_entry \<Rightarrow> trend_data" where
  "news_rss_candidate L idx e =
     (let ttl = str_strip L (entry_title e);
          summary = entry_summary e;
          s = max (py_round1 (88 - of_nat idx * 4)) 20
      in \<lparr> title = ttl,
           category = py ''other'',
           platform = py ''twitter'',
           description = (if summary \<noteq> [] then take 300 summary
                          else py ''Top news story trending across platforms.''),
           score = s,
           velocity = classify_velocity s,
           likes = 0,
           shares = 0,
           comments = 0,
           source = py ''news'',
           external_url = entry_link e,
           source_id = Some (make_source_id L (py ''news'') (take 100 (str_lower L ttl))) \<rparr>)"

text \<open>
  \<open>feed\<close> is what \<open>feedparser.parse\<close> did (the import included): it raised, or it gave the
  entries.
\<close>

definition News_fetch_rss_fallback ::
  "pylib \<Rightarrow> (py_exception + rss_entry list) \<Rightarrow> nat \<Rightarrow> py_exception + trend_data list" where
  "News_fetch_rss_fallback L feed count' =
     (case feed of
        Inl e \<Rightarrow> on_Exception e (Inr [])
      | Inr entries \<Rightarrow>
          Inr (map (\<lambda>(idx, e). news_rss_candidate L idx e) (enumerate 0 (take count' entries))))"

text \<open>
  \<open>api_key\<close> is the setting \<open>GNEWS_API_KEY\<close> (empty when unset) and \<open>headlines\<close> is what
  the request to GNews did: anything that raised inside the \<open>try\<close> (the request, the
  status check, the decoding, an article of the wrong shape), or the articles.
\<close>

definition NewsTrendsFetcher_fetch ::
  "pylib \<Rightarrow> pystr \<Rightarrow> (py_exception + article list) \<Rightarrow> (py_exception + rss_entry list) \<Rightarrow> nat
     \<Rightarrow> py_exception + trend_data list" where
  "NewsTrendsFetcher_fetch L api_key headlines feed count' =
     (if api_key = [] then News_fetch_rss_fallback L feed count'
      else case headlines of
             Inl e \<Rightarrow> on_Exception e (News_fetch_rss_fallback L feed count')
           | Inr articles \<Rightarrow>
               Inr (map (\<lambda>(idx, a). news_candidate L idx a) (enumerate 0 (take count' articles))))"

section \<open>YouTube trending\<close>

definition youtube_candidate :: "pylib \<Rightarrow> nat \<Rightarrow> rss_entry \<Rightarrow> trend_data" where
  "youtube_candidate L idx e =
     (let ttl = str_strip L (entry_title e);
          summary = entry_summary e;
          s = max (py_round1 (85 - of_nat idx * 3.5)) 20
      in \<lparr> title = ttl,
           category = py ''entertainment'',
           platform = py ''youtube'',
           description = (if summary \<noteq> [] then take 300 summary
                          else py ''This video is trending on YouTube with significant viewer engagement.''),
           score = s,
           velocity = classify_velocity s,
           likes = 0,
           shares = 0,
           comments = 0,
           source = py ''youtube'',
           external_url = entry_link e,
           source_id = Some (make_source_id L (py ''youtube'') (take 100 (str_lower L ttl))) \<rparr>)"

definition YouTubeTrendsFetcher_fetch ::
  "pylib \<Rightarrow> (py_exception + rss_entry list) \<Rightarrow> nat \<Rightarrow> py_exception + trend_data list" where
  "YouTubeTrendsFetcher_fetch L feed count' =
     (case feed of
        Inl e \<Rightarrow> on_Exception e (Inr [])
      | Inr entries \<Rightarrow>
          Inr (map (\<lambda>(idx, e). youtube_candidate L idx e) (enumerate 0 (take count' entries))))"

section \<open>Music trends\<close>

text \<open>
  A track of the Last.fm chart, as the \<open>.get\<close> calls and \<open>int\<close> read it; \<open>track_artist\<close>
  is \<open>None\<close> when the artist carries no name.
\<close>

record track =
  track_name :: pystr
  track_artist :: "pystr option"
  track_listeners :: int
  track_playcount :: int
  track_url :: pystr

definition music_candidate :: "pylib \<Rightarrow> nat \<Rightarrow> track \<Rightarrow> trend_data" where
  "music_candidate L idx t =
     (let name = track_name t;
          artist = (case track_artist t of None \<Rightarrow> py ''Unknown'' | Some a \<Rightarrow> a);
          listeners = track_listeners t;
          playcount = track_playcount t;
          s = max (score_from_value (of_int listeners) 5000000) 20
      in \<lparr> title = [127925] @ py '' '' @ name @ py '' '' @ [8212] @ py '' '' @ artist,
           category = py ''music'',
           platform = py ''tiktok'',
           description = [34] @ name @ [34] @ py '' by '' @ artist
                     @ py '' is trending in global music charts. ''
                     @ format_thousands L listeners @ py '' listeners, ''
                     @ format_thousands L playcount @ py '' plays. ''
                     @ py ''This track is driving engagement across streaming and social platforms.'',
           score = py_round1 s,
           velocity = classify_velocity s,
           likes = listeners,
           shares = playcount div 10,
           comments = playcount div 50,
           source = py ''music'',
           external_url = track_url t,
           source_id = Some (make_source_id L (py ''music'')
                               (str_lower L (artist @ py '':'' @ name))) \<rparr>)"

definition music_rss_candidate :: "pylib \<Rightarrow> nat \<Rightarrow> rss_entry \<Rightarrow> trend_data" where
  "music_rss_candidate L idx e =
     (let ttl = str_strip L (entry_title e);
          s = max (py_round1 (80 - of_nat idx * 4)) 20
      in \<lparr> title = [127925] @ py '' '' @ ttl,
           category = py ''music'',
           platform = py ''tiktok'',
           description = py ''Music trend: '' @ ttl,
           score = s,
           velocity = classify_velocity s,
           likes = 0,
           shares = 0,
           comments = 0,
           source = py ''music'',
           external_url = entry_link e,
           source_id = Some (make_source_id L (py ''music'') (take 100 (str_lower L ttl))) \<rparr>)"

definition Music_fetch_rss_fallback ::
  "pylib \<Rightarrow> (py_exception + rss_entry list) \<Rightarrow> nat \<Rightarrow> py_exception + trend_data list" where
  "Music_fetch_rss_fallback L feed count' =
     (case feed of
        Inl e \<Rightarrow> on_Exception e (Inr [])
      | Inr entries \<Rightarrow>
          Inr (map (\<lambda>(idx, e). music_rss_candidate L idx e) (enumerate 0 (take count' entries))))"

text \<open>
  \<open>api_key\<close> is the setting \<open>LASTFM_API_KEY\<close> and \<open>chart\<close> is what the request to Last.fm
  did: anything that raised inside the \<open>try\<close>, or the tracks.
\<close>

definition MusicTrendsFetcher_fetch ::
  "pylib \<Rightarrow> pystr \<Rightarrow> (py_exception + track list) \<Rightarrow> (py_exception + rss_entry list) \<Rightarrow> nat
     \<Rightarrow> py_exception + trend_data list" where
  "MusicTrendsFetcher_fetch L api_key chart feed count' =
     (if api_key = [] then Music_fetch_rss_fallback L feed count'
      else case chart of
             Inl e \<Rightarrow> on_Exception e (Music_fetch_rss_fallback L feed count')
           | Inr tracks \<Rightarrow>
               Inr (map (\<lambda>(idx, t). music_candidate L idx t) (enumerate 0 (take count' tracks))))"

section \<open>The master fetcher\<close>

text \<open>
  The registry maps a source name to its fetcher. What the aggregator needs of a fetcher
  is what calling \<open>fetcher.fetch()\<close> does, so the registry of the model holds that: the
  exception raised or the list returned. \<open>providers\<close> collects what the external
  services answer during one batch, and \<open>FETCHERS\<close> is the registry of the five
  fetchers above, each called with its default \<open>count\<close>. A fetcher asked twice in
  one batch is taken to do the same both times.
\<close>

type_synonym fetch_result = "py_exception + trend_data list"

record providers =
  trending :: "py_exception + pystr list"
  market :: "py_exception + (pystr \<Rightarrow> (py_exception + fast_info) option)"
  gnews_api_key :: pystr
  headlines :: "py_exception + article list"
  news_feed :: "py_exception + rss_entry list"
  youtube_feed :: "py_exception + rss_entry list"
  lastfm_api_key :: pystr
  chart :: "py_exception + track list"
  music_feed :: "py_exception + rss_entry list"

definition FETCHERS :: "pylib \<Rightarrow> providers \<Rightarrow> (pystr \<times> fetch_result) list" where
  "FETCHERS L W =
     [(py ''google_trends'', GoogleTrendsFetcher_fetch L (trending W) 20),
      (py ''stocks'', StockTrendsFetcher_fetch L (market W) 15),
      (py ''news'', NewsTrendsFetcher_fetch L (gnews_api_key W) (headlines W) (news_feed W) 15),
      (py ''youtube'', YouTubeTrendsFetcher_fetch L (youtube_feed W) 15),
      (py ''music'', MusicTrendsFetcher_fetch L (lastfm_api_key W) (chart W) (music_feed W) 15)]"

datatype log_record = LogWarning pystr | LogError pystr

fun str_of_exception :: "py_exception \<Rightarrow> pystr" where
  "str_of_exception (Exception msg) = msg"
| "str_of_exception KeyboardInterrupt = []"
| "str_of_exception SystemExit = []"

text \<open>
  The loop of \<open>fetch_all_live_trends\<close>. \<open>results\<close> is a Python dict: a new key goes to
  the end and an old key keeps its place, which is \<open>AList.update\<close>. The loop returns the
  dict and what it logged, or the exception that left it.
\<close>

fun fetch_loop ::
  "(pystr \<times> fetch_result) list \<Rightarrow> pystr list
     \<Rightarrow> (pystr \<times> trend_data list) list \<times> log_record list
     \<Rightarrow> py_exception + (pystr \<times> trend_data list) list \<times> log_record list" where
  "fetch_loop F [] acc = Inr acc"
| "fetch_loop F (src # rest) (results, logged) =
     (case map_of F src of
        Some fetched \<Rightarrow>
          (case fetched of
             Inr trends \<Rightarrow> fetch_loop F rest (AList.update src trends results, logged)
           | Inl e \<Rightarrow>
               if is_Exception e
               then fetch_loop F rest
                      (AList.update src [] results,
                       logged @ [LogError (py ''Error fetching '' @ src @ py '': '' @ str_of_exception e)])
               else Inl e)
      | None \<Rightarrow>
          fetch_loop F rest (results, logged @ [LogWarning (py ''Unknown source: '' @ src)]))"

definition fetch_all_live_trends ::
  "(pystr \<times> fetch_result) list \<Rightarrow> pystr list option
     \<Rightarrow> py_exception + (pystr \<times> trend_data list) list \<times> log_record list" where
  "fetch_all_live_trends F sources =
     fetch_loop F (case sources of None \<Rightarrow> map fst F | Some names \<Rightarrow> names) ([], [])"

section \<open>The store (\<open>trends/models.py\<close>)\<close>


record trend = trend_data +
  pk :: nat
  embed_url :: "pystr option"
  created_at :: nat
  updated_at :: nat

record saved_trend =
  saved_user :: nat
  saved_trend_pk :: nat
  saved_at :: nat

record trend_comment =
  comment_trend_pk :: nat
  comment_author :: nat
  comment_body :: pystr
  comment_created_at :: nat

text \<open>
  The database: the three tables in the order the engine enumerates their rows, the next
  primary key of the trend table, and the number of rows written so far. The wall clock
  is a parameter \<open>clk\<close> of every operation that writes: \<open>clk n\<close> is the time of the write
  number \<open>n\<close>, whatever the clock shows then. The engine is taken to accept every row
  the model writes (as SQLite does, which does not enforce the declared lengths), so that
  a write fails only where the lookup before it does.
\<close>

record database =
  trend_rows :: "trend list"
  saved_trend_rows :: "saved_trend list"
  comment_rows :: "trend_comment list"
  next_pk :: nat
  writes :: nat

datatype db_error = MultipleObjectsReturned

text \<open>\<open>setattr(obj, k, v)\<close> for every key of \<open>defaults\<close>, the dict without \<open>source_id\<close>.\<close>

definition set_defaults :: "trend_data \<Rightarrow> trend \<Rightarrow> trend" where
  "set_defaults d t =
     t\<lparr> title := title d, category := category d, platform := platform d,
        description := description d, score := score d, velocity := velocity d,
        likes := likes d, shares := shares d, comments := comments d,
        source := source d, external_url := external_url d \<rparr>"

definition create_trend :: "nat \<Rightarrow> nat \<Rightarrow> pystr \<Rightarrow> trend_data \<Rightarrow> trend" where
  "create_trend new_pk now sid d =
     \<lparr> title = title d, category = category d, platform = platform d,
       description = description d, score = score d, velocity = velocity d,
       likes = likes d, shares = shares d, comments = comments d,
       source = source d, external_url = external_url d, source_id = Some sid,
       pk = new_pk, embed_url = None, created_at = now, updated_at = now \<rparr>"

text \<open>\<open>obj.save()\<close> of a stored object writes the row that has its primary key.\<close>

definition save_row :: "trend \<Rightarrow> trend list \<Rightarrow> trend list" where
  "save_row obj rows = map (\<lambda>r. if pk r = pk obj then obj else r) rows"

text \<open>
  \<open>Trend.objects.update_or_create(source_id=sid, defaults=d)\<close>: \<open>get\<close> by \<open>source_id\<close>;
  no row creates one (\<open>auto_now_add\<close> and \<open>auto_now\<close> stamp it), one row is updated and
  saved (\<open>auto_now\<close> stamps \<open>updated_at\<close>), several rows raise.
\<close>

definition update_or_create ::
  "(nat \<Rightarrow> nat) \<Rightarrow> pystr \<Rightarrow> trend_data \<Rightarrow> database \<Rightarrow> db_error + (trend \<times> bool) \<times> database" where
  "update_or_create clk sid d db =
     (let now = clk (writes db)
      in case filter (\<lambda>t. source_id t = Some sid) (trend_rows db) of
           [] \<Rightarrow>
             (let obj = create_trend (next_pk db) now sid d
              in Inr ((obj, True),
                      db\<lparr> trend_rows := trend_rows db @ [obj],
                          next_pk := Suc (next_pk db),
                          writes := Suc (writes db) \<rparr>))
         | [t] \<Rightarrow>
             (let obj = (set_defaults d t)\<lparr> updated_at := now \<rparr>
              in Inr ((obj, False),
                      db\<lparr> trend_rows := save_row obj (trend_rows db),
                          writes := Suc (writes db) \<rparr>))
         | t # t' # ts \<Rightarrow> Inl MultipleObjectsReturned)"

section \<open>The management command (\<open>fetch_live_trends.py\<close>)\<close>

text \<open>
  \<open>Trend.objects.exclude(source='manual').delete()[0]\<close>. The queryset's \<open>delete\<close> collects
  the rows that cascade from the trends it deletes, and the first component of what it
  returns is the number of all rows deleted, the cascaded ones included.
\<close>

definition delete_non_manual :: "database \<Rightarrow> nat \<times> database" where
  "delete_non_manual db =
     (let doomed = filter (\<lambda>t. source t \<noteq> py ''manual'') (trend_rows db);
          pks = map pk doomed;
          saved_gone = filter (\<lambda>s. saved_trend_pk s \<in> set pks) (saved_trend_rows db);
          comments_gone = filter (\<lambda>c. comment_trend_pk c \<in> set pks) (comment_rows db)
      in (length doomed + length saved_gone + length comments_gone,
          db\<lparr> trend_rows := filter (\<lambda>t. \<not> source t \<noteq> py ''manual'') (trend_rows db),
              saved_trend_rows := filter (\<lambda>s. saved_trend_pk s \<notin> set pks) (saved_trend_rows db),
              comment_rows := filter (\<lambda>c. comment_trend_pk c \<notin> set pks) (comment_rows db) \<rparr>))"

text \<open>
  The inner loop of \<open>handle\<close> over one source's list, with the counters \<open>created\<close> and
  \<open>updated\<close>: a candidate without \<open>source_id\<close> is passed over, and \<open>except Exception\<close>
  passes over one whose write raised.
\<close>

fun reconcile_list ::
  "(nat \<Rightarrow> nat) \<Rightarrow> trend_data list \<Rightarrow> nat \<times> nat \<times> database \<Rightarrow> nat \<times> nat \<times> database" where
  "reconcile_list clk [] acc = acc"
| "reconcile_list clk (d # rest) (created, updated, db) =
     (case source_id d of
        None \<Rightarrow> reconcile_list clk rest (created, updated, db)
      | Some sid \<Rightarrow>
          if sid = [] then reconcile_list clk rest (created, updated, db)
          else (case update_or_create clk sid d db of
                  Inr ((obj, was_created), db') \<Rightarrow>
                    if was_created then reconcile_list clk rest (created + 1, updated, db')
                    else reconcile_list clk rest (created, updated + 1, db')
                | Inl e \<Rightarrow> reconcile_list clk rest (created, updated, db)))"

text \<open>
  The outer loop over \<open>results.items()\<close>: per source the pair of counters, and the running
  totals.
\<close>

record tally =
  per_source :: "(pystr \<times> nat \<times> nat) list"
  total_created :: nat
  total_updated :: nat

fun reconcile ::
  "(nat \<Rightarrow> nat) \<Rightarrow> (pystr \<times> trend_data list) list \<Rightarrow> tally \<times> database \<Rightarrow> tally \<times> database" where
  "reconcile clk [] acc = acc"
| "reconcile clk ((source_name, trend_list) # rest) (tal, db) =
     (case reconcile_list clk trend_list (0, 0, db) of
        (created, updated, db') \<Rightarrow>
          reconcile clk rest
            (tal\<lparr> per_source := per_source tal @ [(source_name, created, updated)],
                 total_created := total_created tal + created,
                 total_updated := total_updated tal + updated \<rparr>, db'))"

definition no_tally :: tally where
  "no_tally = \<lparr> per_source = [], total_created = 0, total_updated = 0 \<rparr>"

record options =
  option_source :: "pystr list option"
  option_clear :: bool

record summary =
  cleared :: "nat option"
  counted :: tally
  total_in_database :: nat

text \<open>
  \<open>Command.handle\<close>: the database after the command, with what it printed (the number
  cleared, the counters, the size of the trend table) or the exception that left it.
\<close>

definition handle ::
  "(nat \<Rightarrow> nat) \<Rightarrow> (pystr \<times> fetch_result) list \<Rightarrow> options \<Rightarrow> database
     \<Rightarrow> database \<times> (py_exception + summary)" where
  "handle clk F opts db =
     (let sources = (case option_source opts of
                       None \<Rightarrow> map fst F
                     | Some names \<Rightarrow> if names = [] then map fst F else names);
          (deleted, db1) = (if option_clear opts
                            then (case delete_non_manual db of (n, db') \<Rightarrow> (Some n, db'))
                            else (None, db))
      in case fetch_all_live_trends F (Some sources) of
           Inl e \<Rightarrow> (db1, Inl e)
         | Inr (results, logged) \<Rightarrow>
             (case reconcile clk results (no_tally, db1) of
                (tal, db2) \<Rightarrow>
                  (db2, Inr \<lparr> cleared = deleted, counted = tal,
                              total_in_database = length (trend_rows db2) \<rparr>)))"

section \<open>The query service (\<open>services/trend_service.py\<close>)\<close>

text \<open>
  \<open>icontains\<close> is the lookup the database runs (\<open>LIKE\<close>, which SQLite matches without
  regard to the case of ASCII letters), and \<open>order_by('-score')\<close> sorts on the score
  alone: rows of equal score stay in the order the engine enumerates them.
\<close>

definition ascii_lower :: "nat \<Rightarrow> nat" where
  "ascii_lower c = (if 65 \<le> c \<and> c \<le> 90 then c + 32 else c)"








section \<open>Notions the properties are stated with\<close>

text \<open>The candidates a run of a fetcher produced: none when the fetcher raised.\<close>

definition produced :: "fetch_result \<Rightarrow> trend_data set" where
  "produced r = (case r of Inl e \<Rightarrow> {} | Inr trends \<Rightarrow> set trends)"

text \<open>The names the aggregator goes through: the ones asked for, or every registered one.\<close>

definition requested :: "(pystr \<times> fetch_result) list \<Rightarrow> pystr list option \<Rightarrow> pystr list" where
  "requested F sources = (case sources of None \<Rightarrow> map fst F | Some names \<Rightarrow> names)"

text \<open>What the aggregator records for a registered source: its list, or the empty list if it raised.\<close>

definition recorded :: "fetch_result \<Rightarrow> trend_data list" where
  "recorded r = (case r of Inl e \<Rightarrow> [] | Inr trends \<Rightarrow> trends)"


text \<open>
  What the schema guarantees of the trend table: primary keys are unique and below the
  next one to be given out, and \<open>source_id\<close> is unique where it is not null
  (\<open>unique=True\<close>).
\<close>

definition wf_db :: "database \<Rightarrow> bool" where
  "wf_db db \<longleftrightarrow>
     distinct (map pk (trend_rows db))
     \<and> (\<forall>t\<in>set (trend_rows db). pk t < next_pk db)
     \<and> distinct (List.map_filter source_id (trend_rows db))"

text \<open>The identifiers the trend table holds.\<close>

definition stored_ids :: "database \<Rightarrow> pystr set" where
  "stored_ids db = set (List.map_filter source_id (trend_rows db))"

text \<open>The fields that \<open>defaults\<close> carries, read off a stored trend.\<close>

definition has_fields_of :: "trend \<Rightarrow> trend_data \<Rightarrow> bool" where
  "has_fields_of t d \<longleftrightarrow>
     title t = title d \<and> category t = category d \<and> platform t = platform d
     \<and> description t = description d \<and> score t = score d \<and> velocity t = velocity d
     \<and> likes t = likes d \<and> shares t = shares d \<and> comments t = comments d
     \<and> source t = source d \<and> external_url t = external_url d"

text \<open>
  An instance of the library on ASCII text, for running the definitions on concrete
  inputs: blanks are stripped, the ASCII letters are lowered, the digest is replaced by
  the identity (a digest without collisions) and the formatters render nothing.
\<close>

definition strip_spaces :: "pystr \<Rightarrow> pystr" where
  "strip_spaces s = rev (dropWhile (\<lambda>c. c = 32) (rev (dropWhile (\<lambda>c. c = 32) s)))"

definition ascii_lib :: pylib where
  "ascii_lib =
     \<lparr> md5_hexdigest = (\<lambda>raw. raw), str_lower = map ascii_lower, str_strip = strip_spaces,
       format_1f = (\<lambda>x. []), format_2f = (\<lambda>x. []), format_thousands = (\<lambda>n. []) \<rparr>"

section \<open>Concrete inputs\<close>


definition quote :: "rat \<Rightarrow> rat \<Rightarrow> (py_exception + fast_info) option" where
  "quote prev_close p =
     Some (Inr \<lparr> last_price = Some p, previous_close = Some prev_close, info_market_cap = None \<rparr>)"



text \<open>
  Stored trends and candidates: a trend entered by hand has the source \<open>manual\<close> and no
  \<open>source_id\<close>; a fetched one has a source and a \<open>source_id\<close>.
\<close>

definition manual_trend :: "nat \<Rightarrow> trend" where
  "manual_trend k =
     \<lparr> title = py ''seeded'', category = py ''music'', platform = py ''tiktok'',
       description = py ''by hand'', score = 98.2, velocity = py ''exploding'',
       likes = 24, shares = 8, comments = 3, source = py ''manual'', external_url = [],
       source_id = None, pk = k, embed_url = None, created_at = 10, updated_at = 10 \<rparr>"

definition sourced_trend :: "nat \<Rightarrow> pystr \<Rightarrow> pystr \<Rightarrow> trend" where
  "sourced_trend k src sid =
     \<lparr> title = py ''old title'', category = py ''other'', platform = py ''twitter'',
       description = py ''old'', score = 50, velocity = py ''steady'',
       likes = 0, shares = 0, comments = 0, source = src, external_url = [],
       source_id = Some sid, pk = k, embed_url = None, created_at = 20, updated_at = 20 \<rparr>"

definition candidate0 :: "pystr \<Rightarrow> pystr option \<Rightarrow> trend_data" where
  "candidate0 ttl sid =
     \<lparr> title = ttl, category = py ''other'', platform = py ''twitter'',
       description = py ''new'', score = 90, velocity = py ''exploding'',
       likes = 0, shares = 0, comments = 0, source = py ''news'', external_url = [],
       source_id = sid \<rparr>"

definition clock0 :: "nat \<Rightarrow> nat" where
  "clock0 n = 1000 + n"

definition db0 :: database where
  "db0 = \<lparr> trend_rows = [manual_trend 1, sourced_trend 2 (py ''news'') (py ''a'')],
           saved_trend_rows = [], comment_rows = [], next_pk = 3, writes = 0 \<rparr>"


text \<open>
  A store seeded with three trends entered by hand and two fetched ones, and the same
  store after a user has saved the fetched trend 4 and two comments were left on it.
\<close>

definition db_seeded :: database where
  "db_seeded =
     \<lparr> trend_rows = [manual_trend 1, manual_trend 2, manual_trend 3,
                      sourced_trend 4 (py ''news'') (py ''a''),
                      sourced_trend 5 (py ''stocks'') (py ''b'')],
       saved_trend_rows = [\<lparr> saved_user = 7, saved_trend_pk = 1, saved_at = 30 \<rparr>],
       comment_rows = [], next_pk = 6, writes = 0 \<rparr>"

definition db_engaged :: database where
  "db_engaged =
     db_seeded\<lparr> saved_trend_rows := [\<lparr> saved_user = 7, saved_trend_pk = 1, saved_at = 30 \<rparr>,
                                     \<lparr> saved_user = 7, saved_trend_pk = 4, saved_at = 31 \<rparr>],
                comment_rows := [\<lparr> comment_trend_pk = 4, comment_author = 7,
                                   comment_body = py ''wow'', comment_created_at = 32 \<rparr>,
                                 \<lparr> comment_trend_pk = 4, comment_author = 8,
                                   comment_body = py ''indeed'', comment_created_at = 33 \<rparr>] \<rparr>"

text \<open>
  Two headlines of 101 characters that differ in case and in their last character only,
  one as a GNews article and one as a feed entry.
\<close>

definition long_title :: "nat \<Rightarrow> nat \<Rightarrow> pystr" where
  "long_title c z = replicate 100 c @ [z]"

definition article0 :: article where
  "article0 = \<lparr> article_title = long_title 65 49, article_description = None,
                article_source_name = None, article_url = [] \<rparr>"

definition entry0 :: rss_entry where
  "entry0 = \<lparr> entry_title = long_title 97 50, entry_link = [], entry_summary = [] \<rparr>"

text \<open>
  A registry in which the first fetcher raises and the second returns one candidate,
  and a store with two trends of equal score, the older one first in the table.
\<close>

definition registry0 :: "(pystr \<times> fetch_result) list" where
  "registry0 = [(py ''news'', Inl (Exception (py ''boom''))),
                (py ''music'', Inr [candidate0 (py ''t1'') (Some (py ''a''))])]"


section \<open>String literals\<close>

lemma py_eq_iff: "py a = py b \<longleftrightarrow> a = b"
  unfolding py_def by (simp add: inj_map_eq_map inj_on_def)


lemma py_colon: "py '':'' = [58]"
  by (simp add: py_def)

section \<open>Rounding and the scoring functions\<close>



lemma round_half_even_of_int: "round_half_even (of_int n) = n"
  unfolding round_half_even_def Let_def by simp



lemma py_round1_tenths: "py_round1 (of_int n / 10) = of_int n / 10"
  unfolding py_round1_def by (simp add: round_half_even_of_int)

lemma py_round1_idem: "py_round1 (py_round1 x) = py_round1 x"
  unfolding py_round1_def by (simp add: round_half_even_of_int)



lemma py_round1_20: "py_round1 20 = 20"
  using py_round1_tenths[of 200] by simp

lemma py_round1_max_20: "py_round1 (max (py_round1 x) 20) = max (py_round1 x) 20"
  by (simp add: max_def py_round1_idem py_round1_20)

lemma score_from_value_round: "py_round1 (score_from_value v m) = score_from_value v m"
  unfolding score_from_value_def using py_round1_tenths[of 500] by (simp add: py_round1_idem)











lemma google_rows_elem: "c \<in> set (google_rows L rows) \<Longrightarrow> \<exists>idx t. c = google_candidate L idx t"
  by (induction L rows rule: google_rows.induct) (auto simp: Let_def split: if_splits)

lemma produced_simps: "produced (Inr cs) = set cs" "produced (Inl e) = {}"
  unfolding produced_def by simp_all

lemma produced_on_Exception: "c \<in> produced (on_Exception e h) \<Longrightarrow> c \<in> produced h"
  unfolding on_Exception_def by (cases "is_Exception e") (simp_all add: produced_simps)

lemma produced_enumerate:
  "c \<in> set (map (\<lambda>(idx, e). f idx e) (enumerate k xs)) \<Longrightarrow> \<exists>idx e. c = f idx e"
  by auto

lemma produced_google: "c \<in> produced (GoogleTrendsFetcher_fetch L tr n) \<Longrightarrow> \<exists>idx t. c = google_candidate L idx t"
proof (cases tr)
  case (Inl e)
  then show "c \<in> produced (GoogleTrendsFetcher_fetch L tr n) \<Longrightarrow> ?thesis"
    unfolding GoogleTrendsFetcher_fetch_def
    by (auto dest!: produced_on_Exception simp: produced_simps)
next
  case (Inr cells)
  then show "c \<in> produced (GoogleTrendsFetcher_fetch L tr n) \<Longrightarrow> ?thesis"
    unfolding GoogleTrendsFetcher_fetch_def
    by (simp add: produced_simps) (erule google_rows_elem)
qed


lemma produced_feed:
  assumes "c \<in> produced (case feed of Inl e \<Rightarrow> on_Exception e (Inr [])
                           | Inr entries \<Rightarrow> Inr (map (\<lambda>(idx, e). f idx e) (enumerate 0 (take n entries))))"
  shows "\<exists>idx e. c = f idx e"
proof (cases feed)
  case (Inl e)
  with assms show ?thesis by (auto dest!: produced_on_Exception simp: produced_simps)
next
  case (Inr entries)
  with assms show ?thesis by (auto simp: produced_simps)
qed

lemma produced_news_rss: "c \<in> produced (News_fetch_rss_fallback L feed n) \<Longrightarrow> \<exists>idx e. c = news_rss_candidate L idx e"
  unfolding News_fetch_rss_fallback_def by (rule produced_feed)

lemma produced_youtube: "c \<in> produced (YouTubeTrendsFetcher_fetch L feed n) \<Longrightarrow> \<exists>idx e. c = youtube_candidate L idx e"
  unfolding YouTubeTrendsFetcher_fetch_def by (rule produced_feed)

lemma produced_music_rss: "c \<in> produced (Music_fetch_rss_fallback L feed n) \<Longrightarrow> \<exists>idx e. c = music_rss_candidate L idx e"
  unfolding Music_fetch_rss_fallback_def by (rule produced_feed)

lemma produced_with_fallback:
  assumes "c \<in> produced (if k = [] then fb
                          else case h of Inl e \<Rightarrow> on_Exception e fb
                               | Inr items \<Rightarrow> Inr (map (\<lambda>(idx, a). f idx a) (enumerate 0 (take n items))))"
  shows "(\<exists>idx a. c = f idx a) \<or> c \<in> produced fb"
proof (cases "k = []")
  case True
  with assms show ?thesis by simp
next
  case False
  show ?thesis
  proof (cases h)
    case (Inl e)
    with assms False show ?thesis by (auto dest!: produced_on_Exception)
  next
    case (Inr items)
    with assms False have "c \<in> set (map (\<lambda>(idx, a). f idx a) (enumerate 0 (take n items)))"
      by (simp add: produced_simps)
    then show ?thesis by (auto dest: produced_enumerate)
  qed
qed

lemma produced_news: "c \<in> produced (NewsTrendsFetcher_fetch L k h feed n) \<Longrightarrow>
    (\<exists>idx a. c = news_candidate L idx a) \<or> (\<exists>idx e. c = news_rss_candidate L idx e)"
  unfolding NewsTrendsFetcher_fetch_def
  by (drule produced_with_fallback) (auto dest: produced_news_rss)

lemma produced_music: "c \<in> produced (MusicTrendsFetcher_fetch L k h feed n) \<Longrightarrow>
    (\<exists>idx a. c = music_candidate L idx a) \<or> (\<exists>idx e. c = music_rss_candidate L idx e)"
  unfolding MusicTrendsFetcher_fetch_def
  by (drule produced_with_fallback) (auto dest: produced_music_rss)


section \<open>Score bounds\<close>






section \<open>Velocity consistency\<close>

lemma classify_velocity_thresholds:
  "(85 \<le> s \<longrightarrow> classify_velocity s = py ''exploding'')
   \<and> (60 \<le> s \<and> s < 85 \<longrightarrow> classify_velocity s = py ''rising'')
   \<and> (30 \<le> s \<and> s < 60 \<longrightarrow> classify_velocity s = py ''steady'')
   \<and> (s < 30 \<longrightarrow> classify_velocity s = py ''declining'')"
  unfolding classify_velocity_def by simp

lemma google_candidate_velocity:
  "velocity (google_candidate L idx t) = classify_velocity (score (google_candidate L idx t))"
  unfolding google_candidate_def Let_def by simp

lemma news_candidate_velocity:
  "velocity (news_candidate L idx a) = classify_velocity (score (news_candidate L idx a))"
  unfolding news_candidate_def Let_def by simp

lemma news_rss_candidate_velocity:
  "velocity (news_rss_candidate L idx e) = classify_velocity (score (news_rss_candidate L idx e))"
  unfolding news_rss_candidate_def Let_def by simp

lemma youtube_candidate_velocity:
  "velocity (youtube_candidate L idx e) = classify_velocity (score (youtube_candidate L idx e))"
  unfolding youtube_candidate_def Let_def by simp

lemma music_rss_candidate_velocity:
  "velocity (music_rss_candidate L idx e) = classify_velocity (score (music_rss_candidate L idx e))"
  unfolding music_rss_candidate_def Let_def by simp

lemma py_round1_max_score_from_value:
  "py_round1 (max (score_from_value v m) 20) = max (score_from_value v m) 20"
  by (simp add: max_def score_from_value_round py_round1_20)

lemma music_candidate_velocity:
  "velocity (music_candidate L idx a) = classify_velocity (score (music_candidate L idx a))"
  unfolding music_candidate_def Let_def by (simp add: py_round1_max_score_from_value)

lemma produced_cases_scored:
  assumes "c \<in> produced (GoogleTrendsFetcher_fetch L trends_answer n1)
             \<union> produced (NewsTrendsFetcher_fetch L news_key gnews_answer news_rss n3)
             \<union> produced (News_fetch_rss_fallback L news_rss' n4)
             \<union> produced (YouTubeTrendsFetcher_fetch L youtube_rss n5)
             \<union> produced (MusicTrendsFetcher_fetch L music_key lastfm_answer music_rss n6)
             \<union> produced (Music_fetch_rss_fallback L music_rss' n7)"
  shows "(\<exists>idx t. c = google_candidate L idx t)
       \<or> (\<exists>idx a. c = news_candidate L idx a) \<or> (\<exists>idx e. c = news_rss_candidate L idx e)
       \<or> (\<exists>idx e. c = youtube_candidate L idx e) \<or> (\<exists>idx a. c = music_candidate L idx a)
       \<or> (\<exists>idx e. c = music_rss_candidate L idx e)"
  using assms produced_google[of c L trends_answer n1]
    produced_news[of c L news_key gnews_answer news_rss n3] produced_news_rss[of c L news_rss' n4]
    produced_youtube[of c L youtube_rss n5] produced_music[of c L music_key lastfm_answer music_rss n6]
    produced_music_rss[of c L music_rss' n7]
  unfolding Un_iff by blast

text \<open>
  C4. Every candidate produced by a fetcher other than the market-movers fetcher has the
  velocity that \<open>classify_velocity\<close> gives its score, under the fixed thresholds: a score
  of 85 or more is exploding, from 60 up to 85 rising, from 30 up to 60 steady, and below
  30 declining.
\<close>

theorem velocity_consistency:
  assumes "c \<in> produced (GoogleTrendsFetcher_fetch L trends_answer n1)
             \<union> produced (NewsTrendsFetcher_fetch L news_key gnews_answer news_rss n3)
             \<union> produced (News_fetch_rss_fallback L news_rss' n4)
             \<union> produced (YouTubeTrendsFetcher_fetch L youtube_rss n5)
             \<union> produced (MusicTrendsFetcher_fetch L music_key lastfm_answer music_rss n6)
             \<union> produced (Music_fetch_rss_fallback L music_rss' n7)"
  shows "velocity c = classify_velocity (score c)
       \<and> (85 \<le> score c \<longrightarrow> velocity c = py ''exploding'')
       \<and> (60 \<le> score c \<and> score c < 85 \<longrightarrow> velocity c = py ''rising'')
       \<and> (30 \<le> score c \<and> score c < 60 \<longrightarrow> velocity c = py ''steady'')
       \<and> (score c < 30 \<longrightarrow> velocity c = py ''declining'')"
proof -
  have "velocity c = classify_velocity (score c)"
    using produced_cases_scored[OF assms]
    by (elim disjE exE)
       (simp_all only: google_candidate_velocity news_candidate_velocity
          news_rss_candidate_velocity youtube_candidate_velocity music_candidate_velocity
          music_rss_candidate_velocity)
  then show ?thesis using classify_velocity_thresholds[of "score c"] by simp
qed

text \<open>The first search trend scores 95 and is exploding.\<close>

lemma google_fetch_mars:
  "GoogleTrendsFetcher_fetch ascii_lib (Inr [py ''Mars'']) 20
     = Inr [google_candidate ascii_lib 0 (py ''Mars'')]"
  by (simp add: GoogleTrendsFetcher_fetch_def py_def ascii_lib_def strip_spaces_def)

lemma google_candidate_mars_score: "score (google_candidate ascii_lib 0 (py ''Mars'')) = 95"
  using py_round1_tenths[of 950] by (simp add: google_candidate_def Let_def)

theorem velocity_consistency_witness:
  "google_candidate ascii_lib 0 (py ''Mars'')
     \<in> produced (GoogleTrendsFetcher_fetch ascii_lib (Inr [py ''Mars'']) 20)
   \<and> score (google_candidate ascii_lib 0 (py ''Mars'')) = 95
   \<and> velocity (google_candidate ascii_lib 0 (py ''Mars'')) = py ''exploding''"
proof -
  have mem: "google_candidate ascii_lib 0 (py ''Mars'')
     \<in> produced (GoogleTrendsFetcher_fetch ascii_lib (Inr [py ''Mars'']) 20)"
    by (simp add: google_fetch_mars produced_simps)
  then have "85 \<le> score (google_candidate ascii_lib 0 (py ''Mars''))
      \<longrightarrow> velocity (google_candidate ascii_lib 0 (py ''Mars'')) = py ''exploding''"
    using velocity_consistency[of "google_candidate ascii_lib 0 (py ''Mars'')" ascii_lib
        "Inr [py ''Mars'']" 20 "[]" "Inl (Exception [])" "Inl (Exception [])" 0
        "Inl (Exception [])" 0 "Inl (Exception [])" 0
        "[]" "Inl (Exception [])" "Inl (Exception [])" 0 "Inl (Exception [])" 0]
    by blast
  with mem google_candidate_mars_score show ?thesis by simp
qed

section \<open>Market-movers ordering\<close>














section \<open>The store and the reconciliation loop\<close>

lemma in_map_filter_source_id:
  "sid \<in> set (List.map_filter source_id rows) \<longleftrightarrow> (\<exists>t\<in>set rows. source_id t = Some sid)"
  by (induction rows) (auto split: option.splits)

lemma filter_sid_empty:
  "filter (\<lambda>t. source_id t = Some sid) rows = [] \<longleftrightarrow> sid \<notin> set (List.map_filter source_id rows)"
  by (simp add: in_map_filter_source_id filter_empty_conv)

lemma filter_sid_unique:
  assumes "distinct (List.map_filter source_id rows)"
      and "sid \<in> set (List.map_filter source_id rows)"
  shows "\<exists>t. filter (\<lambda>t. source_id t = Some sid) rows = [t]"
  using assms
proof (induction rows)
  case Nil
  then show ?case by simp
next
  case (Cons r rows)
  show ?case
  proof (cases "source_id r = Some sid")
    case True
    with Cons.prems have "sid \<notin> set (List.map_filter source_id rows)"
      by simp
    then have "filter (\<lambda>t. source_id t = Some sid) rows = []" by (simp add: filter_sid_empty)
    with True show ?thesis by simp
  next
    case False
    with Cons.prems have "distinct (List.map_filter source_id rows)"
      "sid \<in> set (List.map_filter source_id rows)"
      by (auto split: option.splits)
    with Cons.IH False show ?thesis by simp
  qed
qed

lemma pk_unique:
  assumes "distinct (map pk rows)" "t \<in> set rows" "r \<in> set rows" "pk r = pk t"
  shows "r = t"
  using assms by (meson distinct_map inj_onD)

lemma save_row_maps:
  assumes "distinct (map pk rows)" "t \<in> set rows"
      and "pk obj = pk t" "source_id obj = source_id t" "created_at obj = created_at t"
  shows "map pk (save_row obj rows) = map pk rows"
    and "map source_id (save_row obj rows) = map source_id rows"
    and "map created_at (save_row obj rows) = map created_at rows"
proof -
  have eq: "\<And>r. r \<in> set rows \<Longrightarrow> pk r = pk t \<Longrightarrow> r = t"
    using assms(1,2) by (rule pk_unique)
  show "map pk (save_row obj rows) = map pk rows"
    unfolding save_row_def using assms(3) by auto
  show "map source_id (save_row obj rows) = map source_id rows"
    unfolding save_row_def using assms(3,4) eq by auto
  show "map created_at (save_row obj rows) = map created_at rows"
    unfolding save_row_def using assms(3,5) eq by auto
qed

lemma map_filter_cong_map:
  "map f xs = map f ys \<Longrightarrow> List.map_filter f xs = List.map_filter f ys"
proof (induction xs arbitrary: ys)
  case Nil
  then show ?case by simp
next
  case (Cons x xs)
  then obtain y ys' where "ys = y # ys'" by (cases ys) auto
  with Cons show ?case by (auto split: option.splits)
qed

lemma stored_ids_iff: "sid \<in> stored_ids db \<longleftrightarrow> (\<exists>t\<in>set (trend_rows db). source_id t = Some sid)"
  unfolding stored_ids_def by (rule in_map_filter_source_id)

lemma update_or_create_new:
  assumes "sid \<notin> stored_ids db"
  shows "update_or_create clk sid d db =
           Inr ((create_trend (next_pk db) (clk (writes db)) sid d, True),
                db\<lparr> trend_rows := trend_rows db @ [create_trend (next_pk db) (clk (writes db)) sid d],
                    next_pk := Suc (next_pk db), writes := Suc (writes db) \<rparr>)"
proof -
  have "filter (\<lambda>t. source_id t = Some sid) (trend_rows db) = []"
    using assms by (simp add: filter_sid_empty stored_ids_def)
  then show ?thesis by (simp add: update_or_create_def Let_def)
qed

lemma update_or_create_old:
  assumes "wf_db db" "sid \<in> stored_ids db"
  shows "\<exists>t. t \<in> set (trend_rows db) \<and> source_id t = Some sid
           \<and> filter (\<lambda>r. source_id r = Some sid) (trend_rows db) = [t]
           \<and> update_or_create clk sid d db =
               Inr (((set_defaults d t)\<lparr> updated_at := clk (writes db) \<rparr>, False),
                    db\<lparr> trend_rows := save_row ((set_defaults d t)\<lparr> updated_at := clk (writes db) \<rparr>)
                          (trend_rows db),
                        writes := Suc (writes db) \<rparr>)"
proof -
  from assms obtain t where t: "filter (\<lambda>r. source_id r = Some sid) (trend_rows db) = [t]"
    unfolding wf_db_def stored_ids_def using filter_sid_unique by blast
  then have "t \<in> set (filter (\<lambda>r. source_id r = Some sid) (trend_rows db))" by simp
  then have mem: "t \<in> set (trend_rows db)" "source_id t = Some sid" by simp_all
  from t have "update_or_create clk sid d db =
               Inr (((set_defaults d t)\<lparr> updated_at := clk (writes db) \<rparr>, False),
                    db\<lparr> trend_rows := save_row ((set_defaults d t)\<lparr> updated_at := clk (writes db) \<rparr>)
                          (trend_rows db),
                        writes := Suc (writes db) \<rparr>)"
    by (simp add: update_or_create_def Let_def)
  with mem t show ?thesis by blast
qed

lemma saved_selectors:
  "pk ((set_defaults d t)\<lparr> updated_at := now \<rparr>) = pk t"
  "source_id ((set_defaults d t)\<lparr> updated_at := now \<rparr>) = source_id t"
  "created_at ((set_defaults d t)\<lparr> updated_at := now \<rparr>) = created_at t"
  "embed_url ((set_defaults d t)\<lparr> updated_at := now \<rparr>) = embed_url t"
  "updated_at ((set_defaults d t)\<lparr> updated_at := now \<rparr>) = now"
  "has_fields_of ((set_defaults d t)\<lparr> updated_at := now \<rparr>) d"
  by (simp_all add: set_defaults_def has_fields_of_def)

lemma created_selectors:
  "pk (create_trend n now sid d) = n"
  "source_id (create_trend n now sid d) = Some sid"
  "created_at (create_trend n now sid d) = now"
  "updated_at (create_trend n now sid d) = now"
  "embed_url (create_trend n now sid d) = None"
  "has_fields_of (create_trend n now sid d) d"
  by (simp_all add: create_trend_def has_fields_of_def)

lemma wf_db_create:
  assumes "wf_db db" "sid \<notin> stored_ids db"
  shows "wf_db (db\<lparr> trend_rows := trend_rows db @ [create_trend (next_pk db) now sid d],
                    next_pk := Suc (next_pk db), writes := w \<rparr>)"
proof -
  have fresh: "next_pk db \<notin> pk ` set (trend_rows db)"
    using assms(1) unfolding wf_db_def by auto
  have mf: "List.map_filter source_id (trend_rows db @ [create_trend (next_pk db) now sid d])
            = List.map_filter source_id (trend_rows db) @ [sid]"
    by (simp add: map_filter_def created_selectors)
  show ?thesis
    using assms fresh unfolding wf_db_def stored_ids_def
    by (auto simp: mf created_selectors less_Suc_eq)
qed

lemma wf_db_save:
  assumes "wf_db db" "t \<in> set (trend_rows db)"
      and "pk obj = pk t" "source_id obj = source_id t" "created_at obj = created_at t"
  shows "wf_db (db\<lparr> trend_rows := save_row obj (trend_rows db), writes := w \<rparr>)"
proof -
  have d: "distinct (map pk (trend_rows db))" using assms(1) unfolding wf_db_def by simp
  note m = save_row_maps[OF d assms(2,3,4,5)]
  have "\<forall>k\<in>set (map pk (trend_rows db)). k < next_pk db"
    using assms(1) unfolding wf_db_def by simp
  then have "\<forall>k\<in>set (map pk (save_row obj (trend_rows db))). k < next_pk db"
    by (simp only: m(1))
  then have bound: "\<forall>r\<in>set (save_row obj (trend_rows db)). pk r < next_pk db"
    by simp
  have "List.map_filter source_id (save_row obj (trend_rows db))
          = List.map_filter source_id (trend_rows db)"
    by (rule map_filter_cong_map) (rule m(2))
  with bound d assms(1) show ?thesis unfolding wf_db_def by (simp add: m(1))
qed

lemma stored_ids_create:
  "stored_ids (db\<lparr> trend_rows := trend_rows db @ [create_trend n now sid d], next_pk := k, writes := w \<rparr>)
     = insert sid (stored_ids db)"
  unfolding stored_ids_def by (simp add: map_filter_def created_selectors)



lemma reconcile_list_insert:
  assumes "source_id d = Some sid" "sid \<noteq> []" "sid \<notin> stored_ids db"
  shows "reconcile_list clk (d # rest) (c, u, db) =
           reconcile_list clk rest
             (c + 1, u,
              db\<lparr> trend_rows := trend_rows db @ [create_trend (next_pk db) (clk (writes db)) sid d],
                  next_pk := Suc (next_pk db), writes := Suc (writes db) \<rparr>)"
  using assms by (simp add: update_or_create_new)







lemma save_row_by_source_id:
  assumes "wf_db db" "t \<in> set (trend_rows db)" "source_id t = Some sid" "pk obj = pk t"
  shows "save_row obj (trend_rows db)
           = map (\<lambda>r. if source_id r = Some sid then obj else r) (trend_rows db)"
proof -
  have "sid \<in> stored_ids db" using assms(2,3) by (auto simp: stored_ids_iff)
  with assms(1) obtain t' where t': "filter (\<lambda>r. source_id r = Some sid) (trend_rows db) = [t']"
    unfolding wf_db_def stored_ids_def using filter_sid_unique by blast
  have "t \<in> set (filter (\<lambda>r. source_id r = Some sid) (trend_rows db))" using assms(2,3) by simp
  with t' have tt: "t' = t" by simp
  have dist: "distinct (map pk (trend_rows db))" using assms(1) unfolding wf_db_def by simp
  have a: "\<And>r. r \<in> set (trend_rows db) \<Longrightarrow> pk r = pk t \<Longrightarrow> r = t"
    using dist assms(2) by (rule pk_unique)
  have b: "\<And>r. r \<in> set (trend_rows db) \<Longrightarrow> source_id r = Some sid \<Longrightarrow> r = t"
  proof -
    fix r assume "r \<in> set (trend_rows db)" "source_id r = Some sid"
    then have "r \<in> set (filter (\<lambda>r. source_id r = Some sid) (trend_rows db))" by simp
    with t' tt show "r = t" by simp
  qed
  show ?thesis unfolding save_row_def using a b assms(3,4) by auto
qed

section \<open>Idempotent reconciliation\<close>

text \<open>
  What the command does to the store: without \<open>--clear\<close> it is the reconciliation of
  what the aggregator returned, and with \<open>--clear\<close> the fetched trends are deleted
  first and their number is reported.
\<close>

lemma handle_reconciles:
  assumes "\<not> option_clear opts" "option_source opts = Some names" "names \<noteq> []"
      and "fetch_all_live_trends F (Some names) = Inr (results, logged)"
  shows "fst (handle clk F opts db) = snd (reconcile clk results (no_tally, db))"
  using assms by (simp add: handle_def Let_def split: prod.splits)

lemma handle_clears:
  assumes "option_clear opts" "option_source opts = Some names" "names \<noteq> []"
      and "fetch_all_live_trends F (Some names) = Inr (results, logged)"
  shows "fst (handle clk F opts db)
           = snd (reconcile clk results (no_tally, snd (delete_non_manual db)))
         \<and> (\<exists>r. snd (handle clk F opts db) = Inr r
                \<and> cleared r = Some (fst (delete_non_manual db)))"
  using assms by (simp add: handle_def Let_def split: prod.splits)



lemma wf_db0: "wf_db db0"
  by (simp add: wf_db_def db0_def manual_trend_def sourced_trend_def)




section \<open>Clearing the fetched trends\<close>






text \<open>
  With three manual and two fetched trends stored, and the only bookmark on a manual
  trend, two rows are deleted and 2 is returned. Once a fetched trend carries a bookmark
  and two comments, the same two trends go and the number returned is 5.
\<close>

lemmas clear_defs = delete_non_manual_def db_seeded_def db_engaged_def manual_trend_def
  sourced_trend_def py_eq_iff Let_def


lemma clear_engaged: "fst (delete_non_manual db_engaged) = 5"
  "trend_rows (snd (delete_non_manual db_engaged)) = [manual_trend 1, manual_trend 2, manual_trend 3]"
  by (simp_all add: clear_defs)


section \<open>Identifiers\<close>








section \<open>Truncated news identifiers\<close>

lemma news_source_ids:
  "source_id (news_candidate L i a)
     = Some (make_source_id L (py ''news'') (take 100 (str_lower L (str_strip L (article_title a)))))"
  "source_id (news_rss_candidate L j e)
     = Some (make_source_id L (py ''news'') (take 100 (str_lower L (str_strip L (entry_title e)))))"
  by (simp_all add: news_candidate_def news_rss_candidate_def Let_def)

lemma filter_replaced:
  assumes "source_id obj = Some sid"
  shows "filter (\<lambda>r. source_id r = Some sid)
           (map (\<lambda>r. if source_id r = Some sid then obj else r) rows)
         = map (\<lambda>r. obj) (filter (\<lambda>r. source_id r = Some sid) rows)"
  using assms by (induction rows) auto

lemma upsert_leaves_one:
  assumes wf: "wf_db db" and keyed: "source_id d = Some sid" "sid \<noteq> []"
      and one: "reconcile_list clk [d] (c, u, db) = (c', u', db')"
  shows "wf_db db' \<and> (\<exists>t. filter (\<lambda>r. source_id r = Some sid) (trend_rows db') = [t] \<and> has_fields_of t d)
         \<and> length (trend_rows db') \<le> length (trend_rows db) + 1
         \<and> (sid \<in> stored_ids db \<longrightarrow> length (trend_rows db') = length (trend_rows db))"
proof (cases "sid \<in> stored_ids db")
  case False
  let ?new = "create_trend (next_pk db) (clk (writes db)) sid d"
  let ?db1 = "db\<lparr> trend_rows := trend_rows db @ [?new],
                  next_pk := Suc (next_pk db), writes := Suc (writes db) \<rparr>"
  from one reconcile_list_insert[OF keyed False, of clk "[]" c u] have db': "db' = ?db1" by simp
  have "filter (\<lambda>r. source_id r = Some sid) (trend_rows db) = []"
    using False by (simp add: filter_sid_empty stored_ids_def)
  then have "filter (\<lambda>r. source_id r = Some sid) (trend_rows ?db1) = [?new]"
    by (simp add: created_selectors)
  moreover have "wf_db ?db1" using wf False by (rule wf_db_create)
  ultimately show ?thesis using False unfolding db' by (auto simp: created_selectors)
next
  case True
  from update_or_create_old[OF wf True, of clk d] obtain t where
    t: "t \<in> set (trend_rows db)" "source_id t = Some sid"
       "filter (\<lambda>r. source_id r = Some sid) (trend_rows db) = [t]"
       "update_or_create clk sid d db =
               Inr (((set_defaults d t)\<lparr> updated_at := clk (writes db) \<rparr>, False),
                    db\<lparr> trend_rows := save_row ((set_defaults d t)\<lparr> updated_at := clk (writes db) \<rparr>)
                          (trend_rows db),
                        writes := Suc (writes db) \<rparr>)"
    by blast
  let ?obj = "(set_defaults d t)\<lparr> updated_at := clk (writes db) \<rparr>"
  let ?db1 = "db\<lparr> trend_rows := save_row ?obj (trend_rows db), writes := Suc (writes db) \<rparr>"
  from one t(4) keyed have db': "db' = ?db1" by simp
  have sid_obj: "source_id ?obj = Some sid" using t(2) by (simp add: saved_selectors)
  have rows: "save_row ?obj (trend_rows db)
            = map (\<lambda>r. if source_id r = Some sid then ?obj else r) (trend_rows db)"
    using wf t(1,2) by (rule save_row_by_source_id) (simp add: saved_selectors)
  have "filter (\<lambda>r. source_id r = Some sid) (save_row ?obj (trend_rows db)) = [?obj]"
    unfolding rows by (simp only: filter_replaced[OF sid_obj] t(3)) simp
  moreover have "wf_db ?db1"
    using wf t(1) by (rule wf_db_save) (simp_all add: saved_selectors)
  moreover have "length (save_row ?obj (trend_rows db)) = length (trend_rows db)"
    unfolding save_row_def by simp
  ultimately show ?thesis unfolding db' by (auto simp: saved_selectors)
qed

lemma reconcile_list_two:
  "reconcile_list clk [d1, d2] acc = reconcile_list clk [d2] (reconcile_list clk [d1] acc)"
  by (cases acc) (auto split: option.splits sum.splits prod.splits)

text \<open>
  C10. Both paths of the news fetcher take \<open>source_id\<close> from the first 100 characters of
  the lower-cased (stripped) title. So two news items whose lower-cased titles agree on
  their first 100 characters get the same \<open>source_id\<close>, whichever path each came from,
  and reconciling one after the other on a store that meets the schema leaves exactly
  one trend with that \<open>source_id\<close>, carrying the fields of the second item; the store
  grows by one row at most. (The identifier is not empty: a digest has 32 digits.)
\<close>

theorem news_identifier_truncation:
  assumes agree: "take 100 (str_lower L (str_strip L t1)) = take 100 (str_lower L (str_strip L t2))"
      and titles: "article_title a1 = t1" "entry_title e1 = t1"
                  "article_title a2 = t2" "entry_title e2 = t2"
      and first: "c1 = news_candidate L i a1 \<or> c1 = news_rss_candidate L i e1"
      and second: "c2 = news_candidate L j a2 \<or> c2 = news_rss_candidate L j e2"
      and digest: "make_source_id L (py ''news'') (take 100 (str_lower L (str_strip L t1))) \<noteq> []"
      and wf: "wf_db db"
      and run: "reconcile_list clk [c1, c2] (created, updated, db) = (created', updated', db')"
  shows "source_id c1 = Some (make_source_id L (py ''news'') (take 100 (str_lower L (str_strip L t1))))
       \<and> source_id c2 = source_id c1
       \<and> (\<exists>t. filter (\<lambda>r. source_id r = source_id c1) (trend_rows db') = [t] \<and> has_fields_of t c2)
       \<and> length (trend_rows db') \<le> length (trend_rows db) + 1"
proof -
  let ?sid = "make_source_id L (py ''news'') (take 100 (str_lower L (str_strip L t1)))"
  have id1: "source_id c1 = Some ?sid" using first titles by (auto simp: news_source_ids)
  have id2: "source_id c2 = Some ?sid" using second titles agree by (auto simp: news_source_ids)
  obtain ca ua dba where mid: "reconcile_list clk [c1] (created, updated, db) = (ca, ua, dba)"
    by (cases "reconcile_list clk [c1] (created, updated, db)") auto
  from upsert_leaves_one[OF wf id1 digest mid] have
    wfa: "wf_db dba" and la: "length (trend_rows dba) \<le> length (trend_rows db) + 1"
    and ex: "\<exists>t. filter (\<lambda>r. source_id r = Some ?sid) (trend_rows dba) = [t]"
    by blast+
  from ex obtain t0 where t0: "filter (\<lambda>r. source_id r = Some ?sid) (trend_rows dba) = [t0]"
    by blast
  then have "t0 \<in> set (filter (\<lambda>r. source_id r = Some ?sid) (trend_rows dba))" by simp
  then have "\<exists>t\<in>set (trend_rows dba). source_id t = Some ?sid" by auto
  then have stored: "?sid \<in> stored_ids dba" by (simp add: stored_ids_iff)
  from run mid have fin: "reconcile_list clk [c2] (ca, ua, dba) = (created', updated', db')"
    by (simp only: reconcile_list_two)
  from upsert_leaves_one[OF wfa id2 digest fin] stored have
    "\<exists>t. filter (\<lambda>r. source_id r = Some ?sid) (trend_rows db') = [t] \<and> has_fields_of t c2"
    and "length (trend_rows db') = length (trend_rows dba)"
    by blast+
  with la id1 id2 show ?thesis by simp
qed

text \<open>
  Two headlines of 101 characters, one in capitals from GNews and one in small letters
  from the feed, which differ in their last character as well.
\<close>

lemma strip_spaces_long_title:
  assumes "c \<noteq> 32" "z \<noteq> 32"
  shows "strip_spaces (long_title c z) = long_title c z"
proof -
  have "replicate 100 c = c # replicate 99 c" by (simp add: numeral_eq_Suc)
  then have hd: "long_title c z = c # (replicate 99 c @ [z])" by (simp add: long_title_def)
  then have "dropWhile (\<lambda>x. x = 32) (long_title c z) = long_title c z" using assms(1) by simp
  moreover have "rev (long_title c z) = z # rev (replicate 100 c)" by (simp add: long_title_def)
  ultimately show ?thesis using assms(2) unfolding strip_spaces_def by simp
qed

lemma news_key_long_title:
  assumes "c \<noteq> 32" "z \<noteq> 32"
  shows "take 100 (str_lower ascii_lib (str_strip ascii_lib (long_title c z)))
           = replicate 100 (ascii_lower c)"
  using strip_spaces_long_title[OF assms]
  by (simp add: ascii_lib_def) (simp add: long_title_def)

lemma long_titles_agree:
  "take 100 (str_lower ascii_lib (str_strip ascii_lib (long_title 65 49)))
     = take 100 (str_lower ascii_lib (str_strip ascii_lib (long_title 97 50)))"
  by (simp add: news_key_long_title ascii_lower_def)

lemma long_titles_differ: "long_title 65 49 \<noteq> long_title 97 50"
  by (simp add: long_title_def)

lemma long_title_digest:
  "make_source_id ascii_lib (py ''news'')
     (take 100 (str_lower ascii_lib (str_strip ascii_lib (long_title 65 49)))) \<noteq> []"
  by (simp add: make_source_id_def ascii_lib_def py_colon)

lemma news_key0:
  "source_id (news_candidate ascii_lib 0 article0) = Some (py ''news'' @ [58] @ replicate 100 97)"
  "source_id (news_rss_candidate ascii_lib 0 entry0) = Some (py ''news'' @ [58] @ replicate 100 97)"
  by (simp_all add: news_source_ids article0_def entry0_def news_key_long_title make_source_id_def
        py_colon ascii_lower_def) (simp_all add: ascii_lib_def)

lemma key0_fresh: "py ''news'' @ [58] @ replicate 100 97 \<notin> stored_ids db0"
  by (simp add: stored_ids_def db0_def manual_trend_def sourced_trend_def py_def)

lemma key0_nonempty: "py ''news'' @ [58] @ replicate 100 97 \<noteq> []"
  by (simp add: py_def)

lemma two_headlines_one_row:
  "length (trend_rows (snd (snd (reconcile_list clock0
        [news_candidate ascii_lib 0 article0, news_rss_candidate ascii_lib 0 entry0] (0, 0, db0))))) = 3"
proof -
  let ?k = "py ''news'' @ [58] @ replicate 100 97"
  let ?c1 = "news_candidate ascii_lib 0 article0"
  let ?c2 = "news_rss_candidate ascii_lib 0 entry0"
  let ?db1 = "db0\<lparr> trend_rows := trend_rows db0 @ [create_trend (next_pk db0) (clock0 (writes db0)) ?k ?c1],
                  next_pk := Suc (next_pk db0), writes := Suc (writes db0) \<rparr>"
  have s1: "reconcile_list clock0 [?c1, ?c2] (0, 0, db0) = reconcile_list clock0 [?c2] (0 + 1, 0, ?db1)"
    using news_key0(1) key0_nonempty key0_fresh by (rule reconcile_list_insert)
  obtain c u db' where fin: "reconcile_list clock0 [?c2] (0 + 1, 0, ?db1) = (c, u, db')"
    by (cases "reconcile_list clock0 [?c2] (0 + 1, 0, ?db1)") auto
  have wf1: "wf_db ?db1" using wf_db0 key0_fresh by (rule wf_db_create)
  have "?k \<in> stored_ids ?db1" by (simp add: stored_ids_create)
  with upsert_leaves_one[OF wf1 news_key0(2) key0_nonempty fin]
  have "length (trend_rows db') = length (trend_rows ?db1)" by blast
  then have "length (trend_rows db') = 3" by (simp add: db0_def)
  with s1 fin show ?thesis by simp
qed

theorem news_identifier_truncation_witness:
  "article_title article0 \<noteq> entry_title entry0
   \<and> wf_db db0
   \<and> source_id (news_rss_candidate ascii_lib 0 entry0) = source_id (news_candidate ascii_lib 0 article0)
   \<and> length (trend_rows (snd (snd (reconcile_list clock0
        [news_candidate ascii_lib 0 article0, news_rss_candidate ascii_lib 0 entry0] (0, 0, db0)))))
       \<le> length (trend_rows db0) + 1
   \<and> length (trend_rows db0) = 2
   \<and> length (trend_rows (snd (snd (reconcile_list clock0
        [news_candidate ascii_lib 0 article0, news_rss_candidate ascii_lib 0 entry0] (0, 0, db0)))))
       = 3"
proof -
  let ?c1 = "news_candidate ascii_lib 0 article0"
  let ?c2 = "news_rss_candidate ascii_lib 0 entry0"
  let ?e1 = "\<lparr> entry_title = long_title 65 49, entry_link = [], entry_summary = [] \<rparr>"
  let ?a2 = "\<lparr> article_title = long_title 97 50, article_description = None,
               article_source_name = None, article_url = [] \<rparr>"
  let ?run = "reconcile_list clock0 [?c1, ?c2] (0, 0, db0)"
  have run: "?run = (fst ?run, fst (snd ?run), snd (snd ?run))" by simp
  have titles: "article_title article0 = long_title 65 49" "entry_title ?e1 = long_title 65 49"
    "article_title ?a2 = long_title 97 50" "entry_title entry0 = long_title 97 50"
    by (simp_all add: article0_def entry0_def)
  have first: "?c1 = news_candidate ascii_lib 0 article0 \<or> ?c1 = news_rss_candidate ascii_lib 0 ?e1"
    by simp
  have second: "?c2 = news_candidate ascii_lib 0 ?a2 \<or> ?c2 = news_rss_candidate ascii_lib 0 entry0"
    by simp
  from news_identifier_truncation[OF long_titles_agree titles first second long_title_digest
      wf_db0 run]
  have "source_id ?c2 = source_id ?c1"
    and "length (trend_rows (snd (snd ?run))) \<le> length (trend_rows db0) + 1"
    by blast+
  moreover have "article_title article0 \<noteq> entry_title entry0"
    using long_titles_differ by (simp add: article0_def entry0_def)
  moreover have "length (trend_rows db0) = 2" by (simp add: db0_def)
  ultimately show ?thesis using wf_db0 two_headlines_one_row by blast
qed

section \<open>Aggregator isolation\<close>

lemma fetch_loop_isolated:
  assumes "\<forall>src\<in>set names. \<forall>e. map_of F src = Some (Inl e) \<longrightarrow> is_Exception e"
  shows "\<exists>results' logged'.
           fetch_loop F names (results, logged) = Inr (results', logged')
           \<and> (\<forall>src. map_of results' src =
                  (if src \<in> set names \<and> map_of F src \<noteq> None
                   then map_option recorded (map_of F src) else map_of results src))
           \<and> (\<exists>more. logged' = logged @ more)
           \<and> (\<forall>src\<in>set names. map_of F src = None
                  \<longrightarrow> LogWarning (py ''Unknown source: '' @ src) \<in> set logged')"
  using assms
proof (induction names arbitrary: results logged)
  case Nil
  then show ?case by simp
next
  case (Cons name names)
  have rest: "\<forall>src\<in>set names. \<forall>e. map_of F src = Some (Inl e) \<longrightarrow> is_Exception e"
    using Cons.prems by simp
  show ?case
  proof (cases "map_of F name")
    case None
    let ?logged1 = "logged @ [LogWarning (py ''Unknown source: '' @ name)]"
    from Cons.IH[OF rest, of results ?logged1] obtain results' logged' where
      ih: "fetch_loop F names (results, ?logged1) = Inr (results', logged')"
        "\<forall>src. map_of results' src =
                  (if src \<in> set names \<and> map_of F src \<noteq> None
                   then map_option recorded (map_of F src) else map_of results src)"
        "\<exists>more. logged' = ?logged1 @ more"
        "\<forall>src\<in>set names. map_of F src = None
                  \<longrightarrow> LogWarning (py ''Unknown source: '' @ src) \<in> set logged'"
      by blast
    have step: "fetch_loop F (name # names) (results, logged) = Inr (results', logged')"
      using None ih(1) by simp
    from ih(3) obtain more where more: "logged' = logged @ ([LogWarning (py ''Unknown source: '' @ name)] @ more)"
      by auto
    then have here: "LogWarning (py ''Unknown source: '' @ name) \<in> set logged'" by simp
    have m: "\<forall>src. map_of results' src =
                  (if src \<in> set (name # names) \<and> map_of F src \<noteq> None
                   then map_option recorded (map_of F src) else map_of results src)"
      using ih(2) None by auto
    have l: "\<exists>more. logged' = logged @ more" using more by blast
    have w: "\<forall>src\<in>set (name # names). map_of F src = None
                  \<longrightarrow> LogWarning (py ''Unknown source: '' @ src) \<in> set logged'"
      using here ih(4) by simp
    from step m l w show ?thesis by blast
  next
    case (Some fetched)
    let ?results1 = "AList.update name (recorded fetched) results"
    let ?logged1 = "(case fetched of Inr trends \<Rightarrow> logged
                     | Inl e \<Rightarrow> logged @ [LogError (py ''Error fetching '' @ name @ py '': '' @ str_of_exception e)])"
    have caught: "\<And>e. fetched = Inl e \<Longrightarrow> is_Exception e" using Cons.prems Some by simp
    have step: "fetch_loop F (name # names) (results, logged) = fetch_loop F names (?results1, ?logged1)"
      using Some caught by (cases fetched) (simp_all add: recorded_def)
    from Cons.IH[OF rest, of ?results1 ?logged1] obtain results' logged' where
      ih: "fetch_loop F names (?results1, ?logged1) = Inr (results', logged')"
        "\<forall>src. map_of results' src =
                  (if src \<in> set names \<and> map_of F src \<noteq> None
                   then map_option recorded (map_of F src) else map_of ?results1 src)"
        "\<exists>more. logged' = ?logged1 @ more"
        "\<forall>src\<in>set names. map_of F src = None
                  \<longrightarrow> LogWarning (py ''Unknown source: '' @ src) \<in> set logged'"
      by blast
    have m: "\<forall>src. map_of results' src =
                  (if src \<in> set (name # names) \<and> map_of F src \<noteq> None
                   then map_option recorded (map_of F src) else map_of results src)"
      using ih(2) Some by (auto simp: update_conv')
    have l: "\<exists>more. logged' = logged @ more" using ih(3) by (cases fetched) auto
    have w: "\<forall>src\<in>set (name # names). map_of F src = None
                  \<longrightarrow> LogWarning (py ''Unknown source: '' @ src) \<in> set logged'"
      using ih(4) Some by simp
    from step ih(1) have "fetch_loop F (name # names) (results, logged) = Inr (results', logged')"
      by simp
    with m l w show ?thesis by blast
  qed
qed

text \<open>
  C2. Whatever names are requested, if every fetcher that raises raises an \<open>Exception\<close>,
  the aggregator does not raise: it returns a result map and a log. The map holds, for
  each requested name that is registered, the list its fetcher returned, or the empty
  list if the fetcher raised; it holds no entry for any other name. Each requested name
  that is not registered is in the log, as a warning.
\<close>

theorem aggregator_isolation:
  assumes "\<forall>src\<in>set (requested F sources). \<forall>e. map_of F src = Some (Inl e) \<longrightarrow> is_Exception e"
  shows "\<exists>results logged.
           fetch_all_live_trends F sources = Inr (results, logged)
           \<and> (\<forall>src. map_of results src =
                  (if src \<in> set (requested F sources)
                   then (case map_of F src of
                           None \<Rightarrow> None
                         | Some (Inl e) \<Rightarrow> Some []
                         | Some (Inr trends) \<Rightarrow> Some trends)
                   else None))
           \<and> (\<forall>src\<in>set (requested F sources). map_of F src = None
                  \<longrightarrow> LogWarning (py ''Unknown source: '' @ src) \<in> set logged)"
proof -
  from fetch_loop_isolated[OF assms, of "[]" "[]"] obtain results logged where
    r: "fetch_loop F (requested F sources) ([], []) = Inr (results, logged)"
       "\<forall>src. map_of results src =
                  (if src \<in> set (requested F sources) \<and> map_of F src \<noteq> None
                   then map_option recorded (map_of F src) else map_of [] src)"
       "\<forall>src\<in>set (requested F sources). map_of F src = None
                  \<longrightarrow> LogWarning (py ''Unknown source: '' @ src) \<in> set logged"
    by blast
  have "fetch_all_live_trends F sources = Inr (results, logged)"
    using r(1) unfolding fetch_all_live_trends_def requested_def by simp
  moreover have "\<forall>src. map_of results src =
                  (if src \<in> set (requested F sources)
                   then (case map_of F src of
                           None \<Rightarrow> None
                         | Some (Inl e) \<Rightarrow> Some []
                         | Some (Inr trends) \<Rightarrow> Some trends)
                   else None)"
    using r(2) by (auto simp: recorded_def split: option.splits sum.splits)
  ultimately show ?thesis using r(3) by blast
qed

text \<open>
  The news fetcher raises, \<open>tiktok\<close> is not a source, the music fetcher answers: the
  batch returns the music list, an empty list for news and no entry for \<open>tiktok\<close>.
\<close>

lemma registry0_run:
  "fetch_all_live_trends registry0 (Some [py ''news'', py ''tiktok'', py ''music''])
     = Inr ([(py ''news'', []), (py ''music'', [candidate0 (py ''t1'') (Some (py ''a''))])],
            [LogError (py ''Error fetching '' @ py ''news'' @ py '': '' @ py ''boom''),
             LogWarning (py ''Unknown source: '' @ py ''tiktok'')])"
  by (simp add: fetch_all_live_trends_def registry0_def py_eq_iff)

lemma registry0_caught:
  "\<forall>src\<in>set (requested registry0 (Some [py ''news'', py ''tiktok'', py ''music''])).
     \<forall>e. map_of registry0 src = Some (Inl e) \<longrightarrow> is_Exception e"
  by (auto simp: requested_def registry0_def py_eq_iff)

theorem aggregator_isolation_witness:
  "fetch_all_live_trends registry0 (Some [py ''news'', py ''tiktok'', py ''music''])
     = Inr ([(py ''news'', []), (py ''music'', [candidate0 (py ''t1'') (Some (py ''a''))])],
            [LogError (py ''Error fetching '' @ py ''news'' @ py '': '' @ py ''boom''),
             LogWarning (py ''Unknown source: '' @ py ''tiktok'')])
   \<and> map_of registry0 (py ''news'') = Some (Inl (Exception (py ''boom'')))
   \<and> map_of registry0 (py ''tiktok'') = None"
  using aggregator_isolation[OF registry0_caught] registry0_run
  by (simp add: registry0_def py_eq_iff)

text \<open>
  An exception that \<open>except Exception\<close> does not catch leaves the aggregator.
\<close>

lemma aggregator_passes_interrupt:
  "fetch_all_live_trends [(py ''news'', Inl KeyboardInterrupt)] None = Inl KeyboardInterrupt"
  by (simp add: fetch_all_live_trends_def)

section \<open>The filter\<close>










section \<open>Context search\<close>








end
